theory Spec2Isabelle
  imports Complex_Main
begin

section \<open>The LangX front end: shared data\<close>

text \<open>
  The front end is a set of React components.  Every component keeps its state in
  \<open>useState\<close>/\<open>useRef\<close> cells and changes it from event handlers.  A handler is modelled as
  a function from the component state (a record of the cells) to the new state.  What a
  handler does outside the component (toast notifications, HTTP requests through axios,
  \<open>URL.createObjectURL\<close> and \<open>URL.revokeObjectURL\<close>) is appended, in program order, to a
  trace of events kept in a record \<open>world\<close>.  The reply of the remote backend to a request
  is a parameter of the handler: a handler is run to completion with the reply it gets, so
  no second handler runs between the request and its continuation (the application covers
  the page with a backdrop while any stage flag is set).
\<close>

text \<open>A \<open>Blob\<close> as far as the code looks at it, and a \<open>File\<close> (a blob with a name).\<close>

record blob =
  blob_size :: nat
  blob_type :: string

record js_file =
  file_name :: string
  file_type :: string
  file_size :: nat

definition blob_of_file :: "js_file \<Rightarrow> blob" where
  "blob_of_file f = \<lparr>blob_size = file_size f, blob_type = file_type f\<rparr>"

text \<open>Object URLs are opaque fresh strings; the n-th one created is modelled by \<open>n\<close>.\<close>

type_synonym object_url = nat

datatype endpoint = TRANSCRIBE | TRANSLATE | SYNTHESIZE

datatype payload =
    Transcribe_form blob string
  | Translate_json string string
  | Synthesize_form string blob string

datatype event =
    Notify_error string
  | Notify_success string
  | Notify_loading nat string
  | Notify_update nat string string
  | Post endpoint payload
  | CreateObjectURL object_url
  | RevokeObjectURL object_url

record world =
  events :: "event list"
  next_url :: object_url
  next_toast :: nat

definition emit :: "event \<Rightarrow> world \<Rightarrow> world" where
  "emit e w = w\<lparr>events := events w @ [e]\<rparr>"

text \<open>\<open>Toast.jsx\<close>: the \<open>notify\<close> object.  \<open>notify.loading\<close> returns the id of the new toast.\<close>

definition notify_error :: "string \<Rightarrow> world \<Rightarrow> world" where
  "notify_error m w = emit (Notify_error m) w"

definition notify_success :: "string \<Rightarrow> world \<Rightarrow> world" where
  "notify_success m w = emit (Notify_success m) w"

definition notify_loading :: "string \<Rightarrow> world \<Rightarrow> nat \<times> world" where
  "notify_loading m w =
     (next_toast w, emit (Notify_loading (next_toast w) m) (w\<lparr>next_toast := Suc (next_toast w)\<rparr>))"

definition notify_update :: "nat \<Rightarrow> string \<Rightarrow> string \<Rightarrow> world \<Rightarrow> world" where
  "notify_update toastId m ty w = emit (Notify_update toastId m ty) w"

definition createObjectURL :: "world \<Rightarrow> object_url \<times> world" where
  "createObjectURL w =
     (next_url w, emit (CreateObjectURL (next_url w)) (w\<lparr>next_url := Suc (next_url w)\<rparr>))"

definition revokeObjectURL :: "object_url \<Rightarrow> world \<Rightarrow> world" where
  "revokeObjectURL u w = emit (RevokeObjectURL u) w"

text \<open>The object URLs that are live after a trace: created and not revoked since.\<close>

fun live_step :: "object_url set \<Rightarrow> event \<Rightarrow> object_url set" where
  "live_step L (CreateObjectURL u) = insert u L"
| "live_step L (RevokeObjectURL u) = L - {u}"
| "live_step L _ = L"

definition live_of :: "event list \<Rightarrow> object_url set" where
  "live_of es = foldl live_step {} es"

definition live :: "world \<Rightarrow> object_url set" where
  "live w = live_of (events w)"

text \<open>
  What \<open>await axios.post(...)\<close> gives: the promise resolves with a status and the response
  data, or rejects with an error.  Of an error the code reads \<open>message\<close>, whether
  \<open>response\<close> is present (and then \<open>response.data?.error\<close>) and whether \<open>request\<close> is.
\<close>

record js_error =
  err_message :: string
  err_response :: "string option option"
  err_request :: bool

datatype 'd axios_outcome = Resolved nat 'd | Rejected js_error

definition Error :: "string \<Rightarrow> js_error" where
  "Error m = \<lparr>err_message = m, err_response = None, err_request = False\<rparr>"

text \<open>JavaScript's \<open>a || b\<close> on strings: the empty string is falsy.\<close>

definition or_str :: "string \<Rightarrow> string \<Rightarrow> string" where
  "or_str a b = (if a \<noteq> [] then a else b)"

definition or_opt :: "string option \<Rightarrow> string \<Rightarrow> string" where
  "or_opt a b = (case a of None \<Rightarrow> b | Some m \<Rightarrow> or_str m b)"

section \<open>\<open>App.jsx\<close>\<close>

definition ALLOWED_AUDIO_TYPES :: "string list" where
  "ALLOWED_AUDIO_TYPES = [''audio/wav'', ''audio/mp3'', ''audio/mpeg'']"

definition MAX_FILE_SIZE :: nat where
  "MAX_FILE_SIZE = 10 * 1024 * 1024"

definition NETWORK :: string where "NETWORK = ''Network error. Please check your connection.''"
definition SERVER :: string where "SERVER = ''Server error. Please try again later.''"
definition TRANSCRIPTION_NO_AUDIO :: string where "TRANSCRIPTION_NO_AUDIO = ''No audio file provided.''"
definition TRANSCRIPTION_INVALID_FORMAT :: string where "TRANSCRIPTION_INVALID_FORMAT = ''Invalid audio format.''"
definition TRANSCRIPTION_FAILED :: string where "TRANSCRIPTION_FAILED = ''Failed to transcribe audio.''"
definition TRANSLATION_NO_TEXT :: string where "TRANSLATION_NO_TEXT = ''No text to translate.''"
definition TRANSLATION_INVALID_LANG :: string where "TRANSLATION_INVALID_LANG = ''Invalid target language.''"
definition TRANSLATION_FAILED :: string where "TRANSLATION_FAILED = ''Failed to translate text.''"
definition SYNTHESIS_NO_REFERENCE :: string where "SYNTHESIS_NO_REFERENCE = ''No reference audio provided.''"
definition SYNTHESIS_NO_TEXT :: string where "SYNTHESIS_NO_TEXT = ''No text to synthesize.''"
definition SYNTHESIS_FAILED :: string where "SYNTHESIS_FAILED = ''Failed to synthesize voice.''"

text \<open>The backend's text for "nothing was recognised".\<close>

definition NO_TRANSCRIPTION :: string where
  "NO_TRANSCRIPTION = ''No transcription available''"

text \<open>The state cells of the \<open>App\<close> component (\<open>fileInputRef\<close> is a DOM handle and left out).\<close>

record app_state =
  transcription :: string
  translation :: string
  isTranscribing :: bool
  isTranslating :: bool
  isCloning :: bool
  targetLang :: string
  clonedAudioUrl :: "object_url option"
  lastRecordingRef :: "blob option"
  uploadedFile :: "js_file option"

definition App_init :: app_state where
  "App_init = \<lparr>transcription = [], translation = [], isTranscribing = False,
     isTranslating = False, isCloning = False, targetLang = ''es'', clonedAudioUrl = None,
     lastRecordingRef = None, uploadedFile = None\<rparr>"

definition world_init :: world where
  "world_init = \<lparr>events = [], next_url = 0, next_toast = 0\<rparr>"

text \<open>\<open>handleLanguageChange\<close>; the argument is \<open>event.target.value\<close>.\<close>

definition handleLanguageChange :: "string \<Rightarrow> app_state \<Rightarrow> app_state" where
  "handleLanguageChange v s = s\<lparr>targetLang := v, translation := []\<rparr>"

definition handleApiError :: "js_error \<Rightarrow> string \<Rightarrow> world \<Rightarrow> world" where
  "handleApiError e customMessage w =
     (case err_response e of
        Some d \<Rightarrow> notify_error (or_str (or_opt d customMessage) SERVER) w
      | None \<Rightarrow>
          if err_request e then notify_error NETWORK w
          else notify_error (or_str customMessage SERVER) w)"

text \<open>
  The data of a reply of \<open>/translate_text\<close>: the code reads
  \<open>response.data?.translations?.[targetLang]\<close>, so the data is modelled by the
  \<open>translations\<close> object when there is one, as the map from its own keys to their
  (string) values.  The lookup of the model is by own key.  JavaScript's lookup also finds
  the properties an object inherits from \<open>Object.prototype\<close> (\<open>constructor\<close>,
  \<open>toString\<close>, ...), whose values are functions; the model leaves them out, and so
  describes \<open>translateText\<close> for the target languages that are not names of such
  properties, among them the three the application offers (\<open>es\<close>, \<open>fr\<close>, \<open>zh\<close>) and
  the empty string.
\<close>

type_synonym translate_data = "(string \<Rightarrow> string option) option"

definition translation_for :: "translate_data \<Rightarrow> string \<Rightarrow> string" where
  "translation_for d lang =
     (case d of None \<Rightarrow> [] | Some m \<Rightarrow> (case m lang of None \<Rightarrow> [] | Some t \<Rightarrow> t))"

definition translateText_catch ::
  "nat \<Rightarrow> js_error \<Rightarrow> app_state \<times> world \<Rightarrow> app_state \<times> world" where
  "translateText_catch toastId e sw =
     (let w1 = notify_update toastId (or_str (err_message e) TRANSLATION_FAILED) ''error'' (snd sw);
          w2 = handleApiError e TRANSLATION_FAILED w1
      in ((fst sw)\<lparr>isTranslating := False\<rparr>, w2))"

definition translateText ::
  "string \<Rightarrow> translate_data axios_outcome \<Rightarrow> app_state \<times> world \<Rightarrow> app_state \<times> world" where
  "translateText text reply sw =
     (let s = fst sw; w = snd sw in
      if text = [] then (s, notify_error TRANSLATION_NO_TEXT w)
      else if targetLang s = [] then (s, notify_error TRANSLATION_INVALID_LANG w)
      else
        let toastId = fst (notify_loading ''Translating text...'' w);
            w1 = snd (notify_loading ''Translating text...'' w);
            s1 = s\<lparr>isTranslating := True\<rparr>;
            w2 = emit (Post TRANSLATE (Translate_json text (targetLang s))) w1
        in case reply of
             Rejected e \<Rightarrow> translateText_catch toastId e (s1, w2)
           | Resolved st d \<Rightarrow>
               if translation_for d (targetLang s) = []
               then translateText_catch toastId (Error TRANSLATION_FAILED) (s1, w2)
               else
                 (s1\<lparr>translation := translation_for d (targetLang s), isTranslating := False\<rparr>,
                  notify_update toastId ''Translation completed!'' ''success'' w2))"

text \<open>
  The data of a reply of \<open>/transcribe\<close>.  \<open>handleRecordingComplete\<close> reads
  \<open>response.data?.transcription\<close>, \<open>handleFileUpload\<close> reads \<open>response.data?.text\<close> and
  \<open>response.data?.error\<close>; the data itself may be missing.
\<close>

record transcribe_data =
  d_transcription :: "string option"
  d_text :: "string option"
  d_error :: "string option"

definition transcription_of :: "transcribe_data option \<Rightarrow> string" where
  "transcription_of d =
     (case d of None \<Rightarrow> [] | Some r \<Rightarrow> (case d_transcription r of None \<Rightarrow> [] | Some t \<Rightarrow> t))"

definition text_of :: "transcribe_data option \<Rightarrow> string" where
  "text_of d = (case d of None \<Rightarrow> [] | Some r \<Rightarrow> (case d_text r of None \<Rightarrow> [] | Some t \<Rightarrow> t))"

definition error_of :: "transcribe_data option \<Rightarrow> string option" where
  "error_of d = (case d of None \<Rightarrow> None | Some r \<Rightarrow> d_error r)"

definition handleRecordingComplete_catch ::
  "js_error \<Rightarrow> app_state \<times> world \<Rightarrow> app_state \<times> world" where
  "handleRecordingComplete_catch e sw =
     ((fst sw)\<lparr>transcription := [], isTranscribing := False\<rparr>,
      handleApiError e TRANSCRIPTION_FAILED (snd sw))"

text \<open>
  \<open>handleRecordingComplete\<close>.  The second reply is the one of \<open>/translate_text\<close>, used when
  the handler goes on to \<open>translateText\<close>.
\<close>

definition handleRecordingComplete ::
  "blob option \<Rightarrow> transcribe_data option axios_outcome \<Rightarrow> translate_data axios_outcome \<Rightarrow>
   app_state \<times> world \<Rightarrow> app_state \<times> world" where
  "handleRecordingComplete audioBlob reply reply2 sw =
     (case audioBlob of
        None \<Rightarrow> (fst sw, notify_error TRANSCRIPTION_NO_AUDIO (snd sw))
      | Some b \<Rightarrow>
          let s = fst sw; w = snd sw;
              toastId = fst (notify_loading ''Transcribing audio...'' w);
              w1 = snd (notify_loading ''Transcribing audio...'' w);
              s1 = s\<lparr>isTranscribing := True, translation := [], clonedAudioUrl := None,
                     lastRecordingRef := Some b\<rparr>;
              w2 = emit (Post TRANSCRIBE (Transcribe_form b ''recording.webm'')) w1
          in (case reply of
               Rejected e \<Rightarrow> handleRecordingComplete_catch e (s1, w2)
             | Resolved st d \<Rightarrow>
                 if transcription_of d = []
                 then handleRecordingComplete_catch (Error TRANSCRIPTION_FAILED) (s1, w2)
                 else
                   let transcribedText = transcription_of d;
                       s2 = s1\<lparr>transcription := transcribedText\<rparr>;
                       w3 = notify_update toastId ''Transcription complete!'' ''success'' w2;
                       sw4 = (if transcribedText \<noteq> NO_TRANSCRIPTION
                              then translateText transcribedText reply2 (s2, w3)
                              else (s2, w3))
                   in ((fst sw4)\<lparr>isTranscribing := False\<rparr>, snd sw4)))"

definition handleFileUpload_catch ::
  "nat \<Rightarrow> js_error \<Rightarrow> app_state \<times> world \<Rightarrow> app_state \<times> world" where
  "handleFileUpload_catch toastId e sw =
     ((fst sw)\<lparr>transcription := [], isTranscribing := False\<rparr>,
      notify_update toastId (or_str (err_message e) TRANSCRIPTION_FAILED) ''error'' (snd sw))"

text \<open>\<open>handleFileUpload\<close>; the first argument is \<open>event.target.files[0]\<close>.\<close>

definition handleFileUpload ::
  "js_file option \<Rightarrow> transcribe_data option axios_outcome \<Rightarrow> translate_data axios_outcome \<Rightarrow>
   app_state \<times> world \<Rightarrow> app_state \<times> world" where
  "handleFileUpload file0 reply reply2 sw =
     (case file0 of
        None \<Rightarrow> sw
      | Some f \<Rightarrow>
          let s = fst sw; w = snd sw in
          if file_type f \<notin> set ALLOWED_AUDIO_TYPES
          then (s, notify_error TRANSCRIPTION_INVALID_FORMAT w)
          else if file_size f > MAX_FILE_SIZE
          then (s, notify_error ''File size must be less than 10MB.'' w)
          else
            let s1 = s\<lparr>uploadedFile := Some f\<rparr>;
                w1 = notify_success ''Audio file uploaded successfully!'' w;
                toastId = fst (notify_loading ''Transcribing audio...'' w1);
                w2 = snd (notify_loading ''Transcribing audio...'' w1);
                s2 = s1\<lparr>isTranscribing := True, translation := [], clonedAudioUrl := None\<rparr>;
                w3 = emit (Post TRANSCRIBE (Transcribe_form (blob_of_file f) (file_name f))) w2
            in (case reply of
                 Rejected e \<Rightarrow> handleFileUpload_catch toastId e (s2, w3)
               | Resolved st d \<Rightarrow>
                   if st = 200 \<and> text_of d \<noteq> []
                   then
                     let transcribedText = text_of d;
                         s3 = s2\<lparr>transcription := transcribedText\<rparr>;
                         w4 = notify_update toastId ''Transcription complete!'' ''success'' w3;
                         sw5 = (if transcribedText \<noteq> NO_TRANSCRIPTION
                                then translateText transcribedText reply2 (s3, w4)
                                else (s3, w4))
                     in ((fst sw5)\<lparr>isTranscribing := False\<rparr>, snd sw5)
                   else handleFileUpload_catch toastId
                          (Error (or_opt (error_of d) TRANSCRIPTION_FAILED)) (s2, w3)))"

definition handleCloneVoice_catch ::
  "js_error \<Rightarrow> app_state \<times> world \<Rightarrow> app_state \<times> world" where
  "handleCloneVoice_catch e sw =
     ((fst sw)\<lparr>clonedAudioUrl := None, isCloning := False\<rparr>,
      handleApiError e SYNTHESIS_FAILED (snd sw))"

text \<open>
  \<open>handleCloneVoice\<close>.  The reply of \<open>/synthesize\<close> carries a blob (\<open>responseType: 'blob'\<close>).
  When \<open>response.data\<close> is missing, reading \<open>response.data.size\<close> for the log throws a
  \<open>TypeError\<close>, which the handler's own \<open>catch\<close> receives.
\<close>

definition handleCloneVoice ::
  "blob option axios_outcome \<Rightarrow> app_state \<times> world \<Rightarrow> app_state \<times> world" where
  "handleCloneVoice reply sw =
     (let s = fst sw; w = snd sw in
      if translation s = [] then (s, notify_error SYNTHESIS_NO_TEXT w)
      else if lastRecordingRef s = None \<and> uploadedFile s = None
      then (s, notify_error SYNTHESIS_NO_REFERENCE w)
      else
        let toastId = fst (notify_loading ''Cloning voice...'' w);
            w1 = snd (notify_loading ''Cloning voice...'' w);
            s1 = s\<lparr>isCloning := True\<rparr>;
            audioFile = (case uploadedFile s of
                           Some f \<Rightarrow> blob_of_file f
                         | None \<Rightarrow> (case lastRecordingRef s of
                                      Some b \<Rightarrow> b
                                    | None \<Rightarrow> \<lparr>blob_size = 0, blob_type = []\<rparr>));
            fileName = (case uploadedFile s of Some f \<Rightarrow> file_name f | None \<Rightarrow> ''reference.webm'');
            w2 = emit (Post SYNTHESIZE (Synthesize_form (translation s) audioFile fileName)) w1
        in case reply of
             Rejected e \<Rightarrow> handleCloneVoice_catch e (s1, w2)
           | Resolved st None \<Rightarrow>
               handleCloneVoice_catch (Error ''Cannot read properties of null'') (s1, w2)
           | Resolved st (Some d) \<Rightarrow>
               if blob_size d = 0
               then handleCloneVoice_catch (Error SYNTHESIS_FAILED) (s1, w2)
               else
                 let w3 = (case clonedAudioUrl s of
                             Some u \<Rightarrow> revokeObjectURL u w2
                           | None \<Rightarrow> w2);
                     audioUrl = fst (createObjectURL w3);
                     w4 = snd (createObjectURL w3);
                     s2 = s1\<lparr>clonedAudioUrl := Some audioUrl\<rparr>;
                     w5 = notify_update toastId ''Voice cloning complete!'' ''success'' w4
                 in (s2\<lparr>isCloning := False\<rparr>, w5))"

text \<open>The events a handler added to a trace.\<close>

definition added :: "world \<Rightarrow> world \<Rightarrow> event list" where
  "added w w' = drop (length (events w)) (events w')"

text \<open>
  The first event of a call of \<open>translateText\<close>: the toast of a failed precondition, or the
  loading toast.
\<close>

fun translate_started :: "event \<Rightarrow> bool" where
  "translate_started (Notify_error m) = (m = TRANSLATION_NO_TEXT \<or> m = TRANSLATION_INVALID_LANG)"
| "translate_started (Notify_loading _ m) = (m = ''Translating text...'')"
| "translate_started _ = False"

text \<open>The requests a trace holds.\<close>

fun is_post :: "event \<Rightarrow> bool" where
  "is_post (Post _ _) = True"
| "is_post _ = False"

definition requests :: "world \<Rightarrow> event list" where
  "requests w = filter is_post (events w)"

section \<open>\<open>components/Recorder.jsx\<close>\<close>

text \<open>
  The component builds its recorder with \<open>new AudioRecorder(stream)\<close> and calls the
  recorder's \<open>start()\<close> and \<open>stop()\<close>.  The class \<open>AudioRecorder\<close> (\<open>utils/audioRecorder\<close>) is
  not among the sources, so what these two calls give is a parameter of the handlers: the
  promise rejects with an error, modelled by its \<open>name\<close>, or resolves (\<open>stop()\<close> with the
  recorded blob).  The recorder object in \<open>recorderRef\<close> is identified by the stream it was
  built on.
\<close>

record recorder_state =
  rec_isRecording :: bool
  rec_isPlaying :: bool
  rec_isLoading :: bool
  rec_audioUrl :: "object_url option"
  rec_error :: "string option"
  recorderRef :: "nat option"

definition Recorder_init :: recorder_state where
  "Recorder_init = \<lparr>rec_isRecording = False, rec_isPlaying = False, rec_isLoading = False,
     rec_audioUrl = None, rec_error = None, recorderRef = None\<rparr>"

definition handleError :: "string \<Rightarrow> recorder_state \<Rightarrow> recorder_state" where
  "handleError m s = s\<lparr>rec_error := Some m, rec_isLoading := False, rec_isRecording := False\<rparr>"

definition startRecording_catch :: "string \<Rightarrow> recorder_state \<Rightarrow> recorder_state" where
  "startRecording_catch name s =
     (let errorMessage =
            (if name = ''NotAllowedError''
             then ''Microphone access was denied. Please allow microphone access to record audio.''
             else if name = ''NotFoundError''
             then ''No microphone found. Please connect a microphone and try again.''
             else ''Failed to start recording'')
      in (handleError errorMessage s)\<lparr>rec_isLoading := False\<rparr>)"

text \<open>
  \<open>startRecording\<close>.  The first argument is what \<open>navigator.mediaDevices.getUserMedia\<close>
  gives (an error name or a stream), the second what \<open>start()\<close> of the new recorder gives.
\<close>

definition startRecording ::
  "string + nat \<Rightarrow> string + unit \<Rightarrow> recorder_state \<Rightarrow> recorder_state" where
  "startRecording media started s =
     (let s1 = s\<lparr>rec_isLoading := True, rec_error := None\<rparr> in
      case media of
        Inl name \<Rightarrow> startRecording_catch name s1
      | Inr stream \<Rightarrow>
          (let s2 = s1\<lparr>recorderRef := Some stream\<rparr> in
           case started of
             Inl name \<Rightarrow> startRecording_catch name s2
           | Inr _ \<Rightarrow>
               s2\<lparr>rec_isRecording := True, rec_audioUrl := None, rec_isLoading := False\<rparr>))"

text \<open>
  \<open>stopRecording\<close>.  The first argument is what \<open>stop()\<close> of the recorder gives; the third
  component of the result is the blob handed to \<open>onRecordingComplete\<close>, when the callback
  is reached.
\<close>

definition stopRecording ::
  "string + blob \<Rightarrow> recorder_state \<times> world \<Rightarrow> recorder_state \<times> world \<times> blob option" where
  "stopRecording stopped sw =
     (let s = fst sw; w = snd sw in
      case recorderRef s of
        None \<Rightarrow> (s, w, None)
      | Some r \<Rightarrow>
          (let s1 = s\<lparr>rec_isLoading := True, rec_error := None\<rparr> in
           case stopped of
             Inl name \<Rightarrow>
               ((handleError ''Failed to stop recording. Please try again.'' s1)
                   \<lparr>rec_isLoading := False\<rparr>, w, None)
           | Inr audioBlob \<Rightarrow>
               (s1\<lparr>rec_audioUrl := Some (fst (createObjectURL w)), rec_isRecording := False,
                   rec_isLoading := False\<rparr>,
                snd (createObjectURL w), Some audioBlob)))"

section \<open>\<open>AudioPlayer\<close> (in \<open>components/Loader.jsx\<close>)\<close>






section \<open>Sample runs\<close>

text \<open>Replies of the backend and inputs used in the concrete runs below.\<close>

definition recorded_blob :: blob where
  "recorded_blob = \<lparr>blob_size = 2048, blob_type = ''audio/webm''\<rparr>"

definition transcribe_ok :: "transcribe_data option axios_outcome" where
  "transcribe_ok =
     Resolved 200 (Some \<lparr>d_transcription = Some ''Hello world'', d_text = None, d_error = None\<rparr>)"

definition translate_ok :: "translate_data axios_outcome" where
  "translate_ok = Resolved 200 (Some (\<lambda>l. if l = ''es'' then Some ''Hola mundo'' else None))"

definition synthesize_ok :: "blob option axios_outcome" where
  "synthesize_ok = Resolved 200 (Some \<lparr>blob_size = 4096, blob_type = ''audio/wav''\<rparr>)"

definition synthesize_timeout :: "blob option axios_outcome" where
  "synthesize_timeout =
     Rejected \<lparr>err_message = ''timeout of 60000ms exceeded'', err_response = None,
               err_request = True\<rparr>"

text \<open>
  A recording is transcribed and translated; then the user asks for a cloned voice four
  times, and the second request times out.
\<close>

definition run_translated :: "app_state \<times> world" where
  "run_translated =
     handleRecordingComplete (Some recorded_blob) transcribe_ok translate_ok (App_init, world_init)"

definition run_clone1 :: "app_state \<times> world" where
  "run_clone1 = handleCloneVoice synthesize_ok run_translated"

definition run_clone2_failed :: "app_state \<times> world" where
  "run_clone2_failed = handleCloneVoice synthesize_timeout run_clone1"

definition run_clone3 :: "app_state \<times> world" where
  "run_clone3 = handleCloneVoice synthesize_ok run_clone2_failed"

definition run_clone4 :: "app_state \<times> world" where
  "run_clone4 = handleCloneVoice synthesize_ok run_clone3"

text \<open>Two files a user may pick: a text file, and a WAV file of 15 MB.\<close>

definition notes_txt :: js_file where
  "notes_txt = \<lparr>file_name = ''notes.txt'', file_type = ''text/plain'', file_size = 120\<rparr>"

definition long_wav :: js_file where
  "long_wav = \<lparr>file_name = ''long.wav'', file_type = ''audio/wav'', file_size = 15 * 1024 * 1024\<rparr>"

definition short_wav :: js_file where
  "short_wav = \<lparr>file_name = ''short.wav'', file_type = ''audio/wav'', file_size = 4096\<rparr>"

definition transcribe_text_ok :: "transcribe_data option axios_outcome" where
  "transcribe_text_ok =
     Resolved 200 (Some \<lparr>d_transcription = None, d_text = Some ''Hello world'', d_error = None\<rparr>)"


text \<open>Replies of \<open>/transcribe\<close> that carry the "nothing was recognised" text.\<close>

definition transcribe_nothing :: "transcribe_data option axios_outcome" where
  "transcribe_nothing =
     Resolved 200 (Some \<lparr>d_transcription = Some NO_TRANSCRIPTION, d_text = Some NO_TRANSCRIPTION,
                          d_error = None\<rparr>)"

section \<open>Properties\<close>

text \<open>
  C9.  Changing the target language stores the new language and empties the displayed
  translation; the transcription and the URL of the synthesized result stay as they were.
  This holds in every state, in particular in every state that displays a translation.
\<close>

theorem handleLanguageChange_clears_translation:
  "targetLang (handleLanguageChange v s) = v
   \<and> translation (handleLanguageChange v s) = []
   \<and> transcription (handleLanguageChange v s) = transcription s
   \<and> clonedAudioUrl (handleLanguageChange v s) = clonedAudioUrl s"
  by (simp add: handleLanguageChange_def)

text \<open>
  C2 (as amended).  \<open>translateText\<close> checks the text first and the target language second.
  When the text is empty, or the text is not empty and the target language is, the call
  shows one error toast (\<open>NO_TEXT\<close> in the first case, \<open>INVALID_LANG\<close> in the second) and
  returns: the state, and so the displayed translation, is as before, and no request is
  issued.
\<close>

theorem translateText_preconditions:
  "text = [] \<or> targetLang s = [] \<Longrightarrow>
   translateText text reply (s, w) =
     (s, notify_error (if text = [] then TRANSLATION_NO_TEXT else TRANSLATION_INVALID_LANG) w)
   \<and> requests (snd (translateText text reply (s, w))) = requests w
   \<and> translation (fst (translateText text reply (s, w))) = translation s"
  by (auto simp: translateText_def requests_def notify_error_def emit_def)

theorem translateText_preconditions_witness:
  "targetLang (App_init\<lparr>targetLang := []\<rparr>) = []
   \<and> translateText ''hola'' translate_ok (App_init\<lparr>targetLang := []\<rparr>, world_init) =
       (App_init\<lparr>targetLang := []\<rparr>, notify_error TRANSLATION_INVALID_LANG world_init)
   \<and> translateText [] translate_ok (App_init, world_init) =
       (App_init, notify_error TRANSLATION_NO_TEXT world_init)"
proof -
  have h: "targetLang (App_init\<lparr>targetLang := []\<rparr>) = []" by simp
  have a: "translateText ''hola'' translate_ok (App_init\<lparr>targetLang := []\<rparr>, world_init) =
       (App_init\<lparr>targetLang := []\<rparr>, notify_error TRANSLATION_INVALID_LANG world_init)"
    using translateText_preconditions [of "''hola''" "App_init\<lparr>targetLang := []\<rparr>" translate_ok world_init] h
    by simp
  have b: "translateText [] translate_ok (App_init, world_init) =
       (App_init, notify_error TRANSLATION_NO_TEXT world_init)"
    using translateText_preconditions [of "[]" App_init translate_ok world_init] by simp
  from h a b show ?thesis by simp
qed

text \<open>
  The claim C2 as it was stated fails: with an empty text and an empty target language the
  call reports \<open>NO_TEXT\<close> and never \<open>INVALID_LANG\<close>.
\<close>

theorem translateText_both_missing_counterexample:
  "targetLang (App_init\<lparr>targetLang := []\<rparr>) = []
   \<and> added world_init (snd (translateText [] translate_ok (App_init\<lparr>targetLang := []\<rparr>, world_init)))
       = [Notify_error TRANSLATION_NO_TEXT]
   \<and> Notify_error TRANSLATION_INVALID_LANG
       \<notin> set (events (snd (translateText [] translate_ok (App_init\<lparr>targetLang := []\<rparr>, world_init))))"
  by (simp add: translateText_def added_def world_init_def notify_error_def emit_def
        TRANSLATION_NO_TEXT_def TRANSLATION_INVALID_LANG_def)

text \<open>
  C3 (as amended).  \<open>handleCloneVoice\<close> checks the translated text first and the reference
  audio second.  When the translation is empty, or it is not empty and there is neither a
  last recording nor an uploaded file, the call shows one error toast (\<open>NO_TEXT\<close> in the
  first case, \<open>NO_REFERENCE\<close> in the second) and returns: the whole state is as before and
  no request is issued.
\<close>

theorem handleCloneVoice_preconditions:
  "translation s = [] \<or> (lastRecordingRef s = None \<and> uploadedFile s = None) \<Longrightarrow>
   handleCloneVoice reply (s, w) =
     (s, notify_error (if translation s = [] then SYNTHESIS_NO_TEXT else SYNTHESIS_NO_REFERENCE) w)
   \<and> requests (snd (handleCloneVoice reply (s, w))) = requests w"
  by (auto simp: handleCloneVoice_def requests_def notify_error_def emit_def)

theorem handleCloneVoice_preconditions_witness:
  "translation (App_init\<lparr>translation := ''Hola mundo''\<rparr>) \<noteq> []
   \<and> lastRecordingRef (App_init\<lparr>translation := ''Hola mundo''\<rparr>) = None
   \<and> uploadedFile (App_init\<lparr>translation := ''Hola mundo''\<rparr>) = None
   \<and> handleCloneVoice synthesize_ok (App_init\<lparr>translation := ''Hola mundo''\<rparr>, world_init) =
       (App_init\<lparr>translation := ''Hola mundo''\<rparr>, notify_error SYNTHESIS_NO_REFERENCE world_init)
   \<and> translation (App_init\<lparr>lastRecordingRef := Some recorded_blob\<rparr>) = []
   \<and> handleCloneVoice synthesize_ok (App_init\<lparr>lastRecordingRef := Some recorded_blob\<rparr>, world_init) =
       (App_init\<lparr>lastRecordingRef := Some recorded_blob\<rparr>, notify_error SYNTHESIS_NO_TEXT world_init)"
proof -
  let ?s = "App_init\<lparr>translation := ''Hola mundo''\<rparr>"
  let ?t = "App_init\<lparr>lastRecordingRef := Some recorded_blob\<rparr>"
  have h: "translation ?s \<noteq> []" "lastRecordingRef ?s = None" "uploadedFile ?s = None"
    by (simp_all add: App_init_def)
  have k: "translation ?t = []" by (simp add: App_init_def)
  have a: "handleCloneVoice synthesize_ok (?s, world_init) =
             (?s, notify_error SYNTHESIS_NO_REFERENCE world_init)"
    using handleCloneVoice_preconditions [of ?s synthesize_ok world_init] h by simp
  have b: "handleCloneVoice synthesize_ok (?t, world_init) =
             (?t, notify_error SYNTHESIS_NO_TEXT world_init)"
    using handleCloneVoice_preconditions [of ?t synthesize_ok world_init] k by simp
  from h k a b show ?thesis by simp
qed

text \<open>
  The claim C3 as it was stated fails: with an empty translation and no reference audio
  the call reports \<open>NO_TEXT\<close> and never \<open>NO_REFERENCE\<close>.
\<close>

theorem handleCloneVoice_both_missing_counterexample:
  "lastRecordingRef App_init = None \<and> uploadedFile App_init = None
   \<and> added world_init (snd (handleCloneVoice synthesize_ok (App_init, world_init)))
       = [Notify_error SYNTHESIS_NO_TEXT]
   \<and> Notify_error SYNTHESIS_NO_REFERENCE
       \<notin> set (events (snd (handleCloneVoice synthesize_ok (App_init, world_init))))"
  by (simp add: handleCloneVoice_def added_def world_init_def App_init_def notify_error_def
        emit_def SYNTHESIS_NO_TEXT_def SYNTHESIS_NO_REFERENCE_def)

text \<open>
  C8.  A selected file whose type is none of \<open>audio/wav\<close>, \<open>audio/mp3\<close>, \<open>audio/mpeg\<close>, or
  whose size is above \<open>10 * 1024 * 1024\<close> bytes, is rejected with an error toast: the state
  is as before (the file is not stored) and no request is issued, so no transcription is
  asked for.
\<close>

theorem handleFileUpload_rejects:
  "file_type f \<notin> {''audio/wav'', ''audio/mp3'', ''audio/mpeg''} \<or> 10 * 1024 * 1024 < file_size f \<Longrightarrow>
   handleFileUpload (Some f) reply reply2 (s, w) =
     (s, notify_error (if file_type f \<notin> {''audio/wav'', ''audio/mp3'', ''audio/mpeg''}
                       then TRANSCRIPTION_INVALID_FORMAT
                       else ''File size must be less than 10MB.'') w)
   \<and> requests (snd (handleFileUpload (Some f) reply reply2 (s, w))) = requests w"
  by (auto simp: handleFileUpload_def requests_def notify_error_def emit_def
        ALLOWED_AUDIO_TYPES_def MAX_FILE_SIZE_def)

theorem handleFileUpload_rejects_witness:
  "file_type notes_txt \<notin> {''audio/wav'', ''audio/mp3'', ''audio/mpeg''}
   \<and> handleFileUpload (Some notes_txt) transcribe_text_ok translate_ok (App_init, world_init) =
       (App_init, notify_error TRANSCRIPTION_INVALID_FORMAT world_init)
   \<and> 10 * 1024 * 1024 < file_size long_wav
   \<and> handleFileUpload (Some long_wav) transcribe_text_ok translate_ok (App_init, world_init) =
       (App_init, notify_error ''File size must be less than 10MB.'' world_init)
   \<and> requests (snd (handleFileUpload (Some long_wav) transcribe_text_ok translate_ok
         (App_init, world_init))) = requests world_init"
proof -
  have h: "file_type notes_txt \<notin> {''audio/wav'', ''audio/mp3'', ''audio/mpeg''}"
    by (simp add: notes_txt_def)
  have k: "10 * 1024 * 1024 < file_size long_wav" "file_type long_wav = ''audio/wav''"
    by (simp_all add: long_wav_def)
  have a: "handleFileUpload (Some notes_txt) transcribe_text_ok translate_ok (App_init, world_init) =
       (App_init, notify_error TRANSCRIPTION_INVALID_FORMAT world_init)"
    using handleFileUpload_rejects [of notes_txt transcribe_text_ok translate_ok App_init world_init] h
    by simp
  have b: "handleFileUpload (Some long_wav) transcribe_text_ok translate_ok (App_init, world_init) =
       (App_init, notify_error ''File size must be less than 10MB.'' world_init)
     \<and> requests (snd (handleFileUpload (Some long_wav) transcribe_text_ok translate_ok
         (App_init, world_init))) = requests world_init"
    using handleFileUpload_rejects [of long_wav transcribe_text_ok translate_ok App_init world_init] k
    by (simp add: requests_def notify_error_def emit_def)
  from h k a b show ?thesis by (simp add: requests_def notify_error_def emit_def)
qed

subsection \<open>The traces of \<open>handleCloneVoice\<close>\<close>

lemma handleCloneVoice_success_events:
  assumes "translation s \<noteq> []" "lastRecordingRef s \<noteq> None \<or> uploadedFile s \<noteq> None"
    "blob_size d \<noteq> 0" "clonedAudioUrl s = Some u"
  shows "\<exists>p. events (snd (handleCloneVoice (Resolved st (Some d)) (s, w))) =
           events w @ [Notify_loading (next_toast w) ''Cloning voice...'', Post SYNTHESIZE p,
             RevokeObjectURL u, CreateObjectURL (next_url w),
             Notify_update (next_toast w) ''Voice cloning complete!'' ''success'']"
    and "clonedAudioUrl (fst (handleCloneVoice (Resolved st (Some d)) (s, w))) = Some (next_url w)"
  using assms
  by (auto simp: handleCloneVoice_def Let_def notify_loading_def notify_update_def emit_def
      createObjectURL_def revokeObjectURL_def)

lemma handleApiError_events: "\<exists>m. events (handleApiError e c w) = events w @ [Notify_error m]"
  by (simp add: handleApiError_def notify_error_def emit_def split: option.splits)

lemma handleCloneVoice_catch_events:
  "\<exists>m. events (snd (handleCloneVoice_catch e (s, w))) = events w @ [Notify_error m]"
  using handleApiError_events [of e SYNTHESIS_FAILED w]
  by (simp add: handleCloneVoice_catch_def)

lemma handleCloneVoice_failure_events:
  assumes "translation s \<noteq> []" "lastRecordingRef s \<noteq> None \<or> uploadedFile s \<noteq> None"
    and "(\<exists>e. reply = Rejected e) \<or> (\<exists>st. reply = Resolved st None)
         \<or> (\<exists>st d. reply = Resolved st (Some d) \<and> blob_size d = 0)"
  shows "\<exists>p m. events (snd (handleCloneVoice reply (s, w))) =
           events w @ [Notify_loading (next_toast w) ''Cloning voice...'', Post SYNTHESIZE p,
             Notify_error m]"
proof -
  let ?w2 = "emit (Post SYNTHESIZE (Synthesize_form (translation s)
       (case uploadedFile s of Some f \<Rightarrow> blob_of_file f
        | None \<Rightarrow> (case lastRecordingRef s of Some b \<Rightarrow> b
                    | None \<Rightarrow> \<lparr>blob_size = 0, blob_type = []\<rparr>))
       (case uploadedFile s of Some f \<Rightarrow> file_name f | None \<Rightarrow> ''reference.webm'')))
     (snd (notify_loading ''Cloning voice...'' w))"
  from assms obtain e where
    r: "handleCloneVoice reply (s, w) = handleCloneVoice_catch e (s\<lparr>isCloning := True\<rparr>, ?w2)"
    by (auto simp: handleCloneVoice_def Let_def)
  from handleCloneVoice_catch_events [of e "s\<lparr>isCloning := True\<rparr>" ?w2]
  obtain m where "events (snd (handleCloneVoice reply (s, w))) = events ?w2 @ [Notify_error m]"
    by (auto simp: r)
  then show ?thesis
    by (simp add: emit_def notify_loading_def)
qed

subsection \<open>The sample runs, evaluated\<close>

lemmas message_defs = NETWORK_def SERVER_def TRANSCRIPTION_NO_AUDIO_def
  TRANSCRIPTION_INVALID_FORMAT_def TRANSCRIPTION_FAILED_def TRANSLATION_NO_TEXT_def
  TRANSLATION_INVALID_LANG_def TRANSLATION_FAILED_def SYNTHESIS_NO_REFERENCE_def
  SYNTHESIS_NO_TEXT_def SYNTHESIS_FAILED_def NO_TRANSCRIPTION_def

lemmas effect_defs = emit_def notify_error_def notify_success_def notify_loading_def
  notify_update_def createObjectURL_def revokeObjectURL_def handleApiError_def or_str_def
  or_opt_def Error_def

lemma run_translated_eq: "run_translated =
  (\<lparr>transcription = ''Hello world'', translation = ''Hola mundo'',
    isTranscribing = False, isTranslating = False, isCloning = False,
    targetLang = ''es'', clonedAudioUrl = None,
    lastRecordingRef = Some recorded_blob, uploadedFile = None\<rparr>,
   \<lparr>events = [Notify_loading 0 ''Transcribing audio...'',
      Post TRANSCRIBE (Transcribe_form recorded_blob ''recording.webm''),
      Notify_update 0 ''Transcription complete!'' ''success'',
      Notify_loading 1 ''Translating text...'',
      Post TRANSLATE (Translate_json ''Hello world'' ''es''),
      Notify_update 1 ''Translation completed!'' ''success''],
    next_url = 0, next_toast = 2\<rparr>)"
  by (simp add: run_translated_def handleRecordingComplete_def translateText_def transcribe_ok_def
      translate_ok_def App_init_def world_init_def transcription_of_def
      translation_for_def Let_def effect_defs message_defs)

lemma run_clone1_eq: "run_clone1 =
  ((fst run_translated)\<lparr>clonedAudioUrl := Some 0\<rparr>,
   \<lparr>events = events (snd run_translated) @ [Notify_loading 2 ''Cloning voice...'',
      Post SYNTHESIZE (Synthesize_form ''Hola mundo'' recorded_blob ''reference.webm''),
      CreateObjectURL 0,
      Notify_update 2 ''Voice cloning complete!'' ''success''],
    next_url = 1, next_toast = 3\<rparr>)"
  by (simp add: run_clone1_def run_translated_eq handleCloneVoice_def synthesize_ok_def
       Let_def effect_defs)

lemma run_clone2_failed_eq: "run_clone2_failed =
  ((fst run_translated)\<lparr>clonedAudioUrl := None\<rparr>,
   \<lparr>events = events (snd run_clone1) @ [Notify_loading 3 ''Cloning voice...'',
      Post SYNTHESIZE (Synthesize_form ''Hola mundo'' recorded_blob ''reference.webm''),
      Notify_error NETWORK],
    next_url = 1, next_toast = 4\<rparr>)"
  by (simp add: run_clone2_failed_def run_clone1_eq run_translated_eq handleCloneVoice_def
       handleCloneVoice_catch_def synthesize_timeout_def Let_def effect_defs)

lemma run_clone3_eq: "run_clone3 =
  ((fst run_translated)\<lparr>clonedAudioUrl := Some 1\<rparr>,
   \<lparr>events = events (snd run_clone2_failed) @ [Notify_loading 4 ''Cloning voice...'',
      Post SYNTHESIZE (Synthesize_form ''Hola mundo'' recorded_blob ''reference.webm''),
      CreateObjectURL 1,
      Notify_update 4 ''Voice cloning complete!'' ''success''],
    next_url = 2, next_toast = 5\<rparr>)"
  by (simp add: run_clone3_def run_clone2_failed_eq run_clone1_eq run_translated_eq
       handleCloneVoice_def synthesize_ok_def Let_def effect_defs)

lemma run_clone4_eq: "run_clone4 =
  ((fst run_translated)\<lparr>clonedAudioUrl := Some 2\<rparr>,
   \<lparr>events = events (snd run_clone3) @ [Notify_loading 5 ''Cloning voice...'',
      Post SYNTHESIZE (Synthesize_form ''Hola mundo'' recorded_blob ''reference.webm''),
      RevokeObjectURL 1, CreateObjectURL 2,
      Notify_update 5 ''Voice cloning complete!'' ''success''],
    next_url = 3, next_toast = 6\<rparr>)"
  by (simp add: run_clone4_def run_clone3_eq run_clone2_failed_eq run_clone1_eq run_translated_eq
       handleCloneVoice_def synthesize_ok_def Let_def effect_defs)

lemma run_clone1_live: "live (snd run_clone1) = {0}"
  by (simp add: run_clone1_eq run_translated_eq live_def live_of_def)

lemma run_clone3_live: "live (snd run_clone3) = {0, 1}"
  by (auto simp: run_clone3_eq run_clone2_failed_eq run_clone1_eq run_translated_eq live_def
        live_of_def)

lemma run_clone4_live: "live (snd run_clone4) = {0, 2}"
  by (auto simp: run_clone4_eq run_clone3_eq run_clone2_failed_eq run_clone1_eq run_translated_eq
        live_def live_of_def)

subsection \<open>Synthesis\<close>

text \<open>
  The success path releases what it replaces: when \<open>handleCloneVoice\<close> succeeds while
  \<open>clonedAudioUrl\<close> holds a URL \<open>u\<close>, the handler adds to the trace, in this order, the
  loading toast, the request, one \<open>revokeObjectURL u\<close>, one \<open>createObjectURL\<close> giving a fresh
  URL, and the success toast, and it stores the fresh URL.
\<close>

lemma handleCloneVoice_success_revokes_stored:
  assumes pre: "translation s \<noteq> []" "lastRecordingRef s \<noteq> None \<or> uploadedFile s \<noteq> None"
    and ok: "blob_size d \<noteq> 0"
    and prev: "clonedAudioUrl s = Some u"
  shows "(\<exists>p. events (snd (handleCloneVoice (Resolved st (Some d)) (s, w))) =
           events w @ [Notify_loading (next_toast w) ''Cloning voice...'', Post SYNTHESIZE p,
             RevokeObjectURL u, CreateObjectURL (next_url w),
             Notify_update (next_toast w) ''Voice cloning complete!'' ''success''])
    \<and> clonedAudioUrl (fst (handleCloneVoice (Resolved st (Some d)) (s, w))) = Some (next_url w)
    \<and> live (snd (handleCloneVoice (Resolved st (Some d)) (s, w))) = insert (next_url w) (live w - {u})"
proof -
  let ?r = "handleCloneVoice (Resolved st (Some d)) (s, w)"
  from handleCloneVoice_success_events(1)[OF pre ok prev]
  obtain p where ev: "events (snd ?r) =
           events w @ [Notify_loading (next_toast w) ''Cloning voice...'', Post SYNTHESIZE p,
             RevokeObjectURL u, CreateObjectURL (next_url w),
             Notify_update (next_toast w) ''Voice cloning complete!'' ''success'']" by blast
  have url: "clonedAudioUrl (fst ?r) = Some (next_url w)"
    by (rule handleCloneVoice_success_events(2)[OF pre ok prev])
  have lv: "live (snd ?r) = insert (next_url w) (live w - {u})"
    by (simp add: live_def ev live_of_def)
  from ev url lv show ?thesis by blast
qed

text \<open>
  C1.  The claim: whenever \<open>handleCloneVoice\<close> succeeds while the object URL of a previous
  synthesized result is live, it revokes that URL exactly once before creating and
  storing the new one, so that afterwards at most one synthesized-result handle is live.
  The code breaks it.  In the sample run the first synthesis creates URL 0; the second
  one times out, and the \<open>catch\<close> block sets \<open>clonedAudioUrl\<close> to null without revoking
  URL 0; the third one succeeds while URL 0 is still live, revokes nothing and creates
  URL 1, so two handles are live; the fourth one succeeds, revokes URL 1 only and creates
  URL 2, and again two handles are live.
\<close>

theorem handleCloneVoice_leaves_two_live:
  "clonedAudioUrl (fst run_clone1) = Some 0 \<and> live (snd run_clone1) = {0}
   \<and> run_clone2_failed = handleCloneVoice synthesize_timeout run_clone1
   \<and> clonedAudioUrl (fst run_clone2_failed) = None \<and> live (snd run_clone2_failed) = {0}
   \<and> run_clone3 = handleCloneVoice synthesize_ok run_clone2_failed
   \<and> RevokeObjectURL 0 \<notin> set (events (snd run_clone3))
   \<and> clonedAudioUrl (fst run_clone3) = Some 1 \<and> live (snd run_clone3) = {0, 1}
   \<and> card (live (snd run_clone3)) = 2
   \<and> run_clone4 = handleCloneVoice synthesize_ok run_clone3
   \<and> clonedAudioUrl (fst run_clone4) = Some 2 \<and> live (snd run_clone4) = {0, 2}
   \<and> card (live (snd run_clone4)) = 2"
proof -
  have a1: "clonedAudioUrl (fst run_clone1) = Some 0"
    by (simp add: run_clone1_eq)
  have a2: "live (snd run_clone1) = {0}"
    by (rule run_clone1_live)
  have b1: "run_clone2_failed = handleCloneVoice synthesize_timeout run_clone1"
    by (simp add: run_clone2_failed_def)
  have b2: "clonedAudioUrl (fst run_clone2_failed) = None"
    by (simp add: run_clone2_failed_eq)
  have b3: "live (snd run_clone2_failed) = {0}"
    by (simp add: run_clone2_failed_eq run_clone1_eq run_translated_eq live_def live_of_def)
  have c1: "run_clone3 = handleCloneVoice synthesize_ok run_clone2_failed"
    by (simp add: run_clone3_def)
  have c2: "RevokeObjectURL 0 \<notin> set (events (snd run_clone3))"
    by (simp add: run_clone3_eq run_clone2_failed_eq run_clone1_eq run_translated_eq)
  have c3: "clonedAudioUrl (fst run_clone3) = Some 1"
    by (simp add: run_clone3_eq)
  have c4: "live (snd run_clone3) = {0, 1}"
    by (rule run_clone3_live)
  have c5: "card (live (snd run_clone3)) = 2"
    by (simp add: c4)
  have d1: "run_clone4 = handleCloneVoice synthesize_ok run_clone3"
    by (simp add: run_clone4_def)
  have d2: "clonedAudioUrl (fst run_clone4) = Some 2"
    by (simp add: run_clone4_eq)
  have d3: "live (snd run_clone4) = {0, 2}"
    by (rule run_clone4_live)
  have d4: "card (live (snd run_clone4)) = 2"
    by (simp add: d3)
  show ?thesis
    by (intro conjI) (rule a1 a2 b1 b2 b3 c1 c2 c3 c4 c5 d1 d2 d3 d4)+
qed

text \<open>
  C4.  When the preconditions of \<open>handleCloneVoice\<close> hold and the synthesis fails (the
  request is rejected: an error reply, a timeout, no reply; or it resolves without data or
  with a body of size zero), the stored URL of the synthesized result is null afterwards,
  and the transcription and the translation are as before.
\<close>

theorem handleCloneVoice_failure_frame:
  "translation s \<noteq> [] \<Longrightarrow> lastRecordingRef s \<noteq> None \<or> uploadedFile s \<noteq> None \<Longrightarrow>
   (\<exists>e. reply = Rejected e) \<or> (\<exists>st. reply = Resolved st None)
     \<or> (\<exists>st d. reply = Resolved st (Some d) \<and> blob_size d = 0) \<Longrightarrow>
   clonedAudioUrl (fst (handleCloneVoice reply (s, w))) = None
   \<and> transcription (fst (handleCloneVoice reply (s, w))) = transcription s
   \<and> translation (fst (handleCloneVoice reply (s, w))) = translation s"
  by (auto simp: handleCloneVoice_def handleCloneVoice_catch_def Let_def)

theorem handleCloneVoice_failure_frame_witness:
  "translation (fst run_clone1) \<noteq> [] \<and> lastRecordingRef (fst run_clone1) \<noteq> None
   \<and> clonedAudioUrl (fst run_clone1) = Some 0
   \<and> clonedAudioUrl (fst (handleCloneVoice synthesize_timeout run_clone1)) = None
   \<and> transcription (fst (handleCloneVoice synthesize_timeout run_clone1)) = ''Hello world''
   \<and> translation (fst (handleCloneVoice synthesize_timeout run_clone1)) = ''Hola mundo''
   \<and> clonedAudioUrl (fst (handleCloneVoice (Resolved 200 (Some \<lparr>blob_size = 0, blob_type = []\<rparr>))
         run_clone1)) = None"
proof -
  let ?s = "fst run_clone1" and ?w = "snd run_clone1"
  have h1: "translation ?s \<noteq> []" by (simp add: run_clone1_eq run_translated_eq)
  have h2: "lastRecordingRef ?s \<noteq> None" by (simp add: run_clone1_eq run_translated_eq)
  have h3: "\<exists>e. synthesize_timeout = Rejected e" by (simp add: synthesize_timeout_def)
  have h4: "clonedAudioUrl ?s = Some 0" by (simp add: run_clone1_eq)
  have t: "transcription ?s = ''Hello world''" "translation ?s = ''Hola mundo''"
    by (simp_all add: run_clone1_eq run_translated_eq)
  have a: "clonedAudioUrl (fst (handleCloneVoice synthesize_timeout run_clone1)) = None
     \<and> transcription (fst (handleCloneVoice synthesize_timeout run_clone1)) = ''Hello world''
     \<and> translation (fst (handleCloneVoice synthesize_timeout run_clone1)) = ''Hola mundo''"
    using handleCloneVoice_failure_frame [of ?s synthesize_timeout ?w] h1 h2 h3 t by simp
  have b: "clonedAudioUrl (fst (handleCloneVoice (Resolved 200 (Some \<lparr>blob_size = 0, blob_type = []\<rparr>))
         run_clone1)) = None"
    using handleCloneVoice_failure_frame
      [of ?s "Resolved 200 (Some \<lparr>blob_size = 0, blob_type = []\<rparr>)" ?w] h1 h2 by simp
  from h1 h2 h4 a b show ?thesis by simp
qed

text \<open>
  C10.  When \<open>handleCloneVoice\<close> fails after its preconditions held, while \<open>clonedAudioUrl\<close>
  holds a live object URL \<open>u\<close>, the stored URL is null afterwards, the handler has not
  called \<open>revokeObjectURL\<close> on \<open>u\<close> (the events it added hold no such call), and \<open>u\<close> is
  still live: the handle is dropped without being released.
\<close>

theorem handleCloneVoice_failure_leaks_previous:
  assumes pre: "translation s \<noteq> []" "lastRecordingRef s \<noteq> None \<or> uploadedFile s \<noteq> None"
    and failed: "(\<exists>e. reply = Rejected e) \<or> (\<exists>st. reply = Resolved st None)
         \<or> (\<exists>st d. reply = Resolved st (Some d) \<and> blob_size d = 0)"
    and prev: "clonedAudioUrl s = Some u" "u \<in> live w"
  shows "clonedAudioUrl (fst (handleCloneVoice reply (s, w))) = None
    \<and> RevokeObjectURL u \<notin> set (added w (snd (handleCloneVoice reply (s, w))))
    \<and> live (snd (handleCloneVoice reply (s, w))) = live w
    \<and> u \<in> live (snd (handleCloneVoice reply (s, w)))"
proof -
  let ?r = "handleCloneVoice reply (s, w)"
  from handleCloneVoice_failure_events [OF pre failed]
  obtain p m where ev: "events (snd ?r) =
      events w @ [Notify_loading (next_toast w) ''Cloning voice...'', Post SYNTHESIZE p,
        Notify_error m]" by blast
  have null: "clonedAudioUrl (fst ?r) = None"
    using pre failed by (auto simp: handleCloneVoice_def handleCloneVoice_catch_def Let_def)
  have norev: "RevokeObjectURL u \<notin> set (added w (snd ?r))"
    by (simp add: added_def ev)
  have lv: "live (snd ?r) = live w"
    by (simp add: live_def ev live_of_def)
  from null norev lv prev(2) show ?thesis by simp
qed

theorem handleCloneVoice_failure_leaks_previous_witness:
  "translation (fst run_clone1) \<noteq> [] \<and> lastRecordingRef (fst run_clone1) \<noteq> None
   \<and> clonedAudioUrl (fst run_clone1) = Some 0 \<and> 0 \<in> live (snd run_clone1)
   \<and> run_clone2_failed = handleCloneVoice synthesize_timeout run_clone1
   \<and> clonedAudioUrl (fst run_clone2_failed) = None
   \<and> RevokeObjectURL 0 \<notin> set (added (snd run_clone1) (snd run_clone2_failed))
   \<and> 0 \<in> live (snd run_clone2_failed)"
proof -
  let ?s = "fst run_clone1" and ?w = "snd run_clone1"
  have h1: "translation ?s \<noteq> []" by (simp add: run_clone1_eq run_translated_eq)
  have h2: "lastRecordingRef ?s \<noteq> None" by (simp add: run_clone1_eq run_translated_eq)
  have h3: "\<exists>e. synthesize_timeout = Rejected e" by (simp add: synthesize_timeout_def)
  have h4: "clonedAudioUrl ?s = Some 0" by (simp add: run_clone1_eq)
  have h5: "0 \<in> live ?w" by (simp add: run_clone1_live)
  have d: "run_clone2_failed = handleCloneVoice synthesize_timeout run_clone1"
    by (simp add: run_clone2_failed_def)
  have c: "clonedAudioUrl (fst run_clone2_failed) = None
     \<and> RevokeObjectURL 0 \<notin> set (added ?w (snd run_clone2_failed))
     \<and> 0 \<in> live (snd run_clone2_failed)"
    using handleCloneVoice_failure_leaks_previous [of ?s synthesize_timeout 0 ?w] h1 h2 h3 h4 h5
    by (simp add: d)
  from h1 h2 h4 h5 d c show ?thesis by simp
qed

subsection \<open>From transcription to translation\<close>

lemma translateText_events:
  "text \<noteq> [] \<Longrightarrow> \<exists>e es. translate_started e \<and>
     events (snd (translateText text reply (s, w))) = events w @ e # es"
  by (cases reply)
     (auto simp: translateText_def translateText_catch_def handleApiError_def Let_def
        notify_loading_def notify_update_def notify_error_def emit_def split: option.splits)

lemma handleRecordingComplete_success:
  assumes ok: "transcription_of d \<noteq> []"
  shows "(\<exists>s2 w3 p.
      transcription s2 = transcription_of d \<and> targetLang s2 = targetLang s
      \<and> events w3 = events w @ [Notify_loading (next_toast w) ''Transcribing audio...'',
            Post TRANSCRIBE p, Notify_update (next_toast w) ''Transcription complete!'' ''success'']
      \<and> handleRecordingComplete (Some b) (Resolved st d) reply2 (s, w) =
          (if transcription_of d \<noteq> NO_TRANSCRIPTION
           then ((fst (translateText (transcription_of d) reply2 (s2, w3)))\<lparr>isTranscribing := False\<rparr>,
                 snd (translateText (transcription_of d) reply2 (s2, w3)))
           else (s2\<lparr>isTranscribing := False\<rparr>, w3)))
    \<and> (list_ex translate_started
          (added w (snd (handleRecordingComplete (Some b) (Resolved st d) reply2 (s, w))))
         \<longleftrightarrow> transcription_of d \<noteq> NO_TRANSCRIPTION)"
proof -
  let ?r = "handleRecordingComplete (Some b) (Resolved st d) reply2 (s, w)"
  let ?text = "transcription_of d"
  let ?s2 = "s\<lparr>isTranscribing := True, translation := [], clonedAudioUrl := None,
                lastRecordingRef := Some b, transcription := ?text\<rparr>"
  let ?p = "Transcribe_form b ''recording.webm''"
  let ?w3 = "notify_update (next_toast w) ''Transcription complete!'' ''success''
               (emit (Post TRANSCRIBE ?p) (snd (notify_loading ''Transcribing audio...'' w)))"
  let ?pre = "[Notify_loading (next_toast w) ''Transcribing audio...'',
            Post TRANSCRIBE ?p, Notify_update (next_toast w) ''Transcription complete!'' ''success'']"
  have ev: "events ?w3 = events w @ ?pre"
    by (simp add: notify_loading_def notify_update_def emit_def)
  have eq: "?r =
          (if ?text \<noteq> NO_TRANSCRIPTION
           then ((fst (translateText ?text reply2 (?s2, ?w3)))\<lparr>isTranscribing := False\<rparr>,
                 snd (translateText ?text reply2 (?s2, ?w3)))
           else (?s2\<lparr>isTranscribing := False\<rparr>, ?w3))"
    using ok by (simp add: handleRecordingComplete_def Let_def notify_loading_def)
  have first: "\<exists>s2 w3 p.
      transcription s2 = ?text \<and> targetLang s2 = targetLang s
      \<and> events w3 = events w @ [Notify_loading (next_toast w) ''Transcribing audio...'',
            Post TRANSCRIBE p, Notify_update (next_toast w) ''Transcription complete!'' ''success'']
      \<and> ?r =
          (if ?text \<noteq> NO_TRANSCRIPTION
           then ((fst (translateText ?text reply2 (s2, w3)))\<lparr>isTranscribing := False\<rparr>,
                 snd (translateText ?text reply2 (s2, w3)))
           else (s2\<lparr>isTranscribing := False\<rparr>, w3))"
    apply (rule exI[of _ ?s2], rule exI[of _ ?w3], rule exI[of _ ?p])
    using ev eq by simp
  have second: "list_ex translate_started (added w (snd ?r)) \<longleftrightarrow> ?text \<noteq> NO_TRANSCRIPTION"
  proof (cases "?text = NO_TRANSCRIPTION")
    case True
    then have "added w (snd ?r) = ?pre" by (simp add: eq ev added_def)
    then show ?thesis using True by simp
  next
    case False
    from translateText_events[OF ok, of reply2 ?s2 ?w3]
    obtain e es where e: "translate_started e"
      and es: "events (snd (translateText ?text reply2 (?s2, ?w3))) = events ?w3 @ e # es" by blast
    from False have "added w (snd ?r) = ?pre @ e # es" by (simp add: eq es ev added_def)
    then show ?thesis using False e by simp
  qed
  from first second show ?thesis by blast
qed

lemma handleFileUpload_success:
  assumes ty: "file_type f \<in> set ALLOWED_AUDIO_TYPES" and sz: "file_size f \<le> MAX_FILE_SIZE"
    and ok: "text_of d \<noteq> []"
  shows "(\<exists>s3 w4 p.
      transcription s3 = text_of d \<and> targetLang s3 = targetLang s
      \<and> events w4 = events w @ [Notify_success ''Audio file uploaded successfully!'',
            Notify_loading (next_toast w) ''Transcribing audio...'',
            Post TRANSCRIBE p, Notify_update (next_toast w) ''Transcription complete!'' ''success'']
      \<and> handleFileUpload (Some f) (Resolved 200 d) reply2 (s, w) =
          (if text_of d \<noteq> NO_TRANSCRIPTION
           then ((fst (translateText (text_of d) reply2 (s3, w4)))\<lparr>isTranscribing := False\<rparr>,
                 snd (translateText (text_of d) reply2 (s3, w4)))
           else (s3\<lparr>isTranscribing := False\<rparr>, w4)))
    \<and> (list_ex translate_started
          (added w (snd (handleFileUpload (Some f) (Resolved 200 d) reply2 (s, w))))
         \<longleftrightarrow> text_of d \<noteq> NO_TRANSCRIPTION)"
proof -
  let ?r = "handleFileUpload (Some f) (Resolved 200 d) reply2 (s, w)"
  let ?text = "text_of d"
  let ?s3 = "s\<lparr>uploadedFile := Some f, isTranscribing := True, translation := [],
                clonedAudioUrl := None, transcription := ?text\<rparr>"
  let ?p = "Transcribe_form (blob_of_file f) (file_name f)"
  let ?w1 = "notify_success ''Audio file uploaded successfully!'' w"
  let ?w4 = "notify_update (next_toast w) ''Transcription complete!'' ''success''
               (emit (Post TRANSCRIBE ?p) (snd (notify_loading ''Transcribing audio...'' ?w1)))"
  let ?pre = "[Notify_success ''Audio file uploaded successfully!'',
            Notify_loading (next_toast w) ''Transcribing audio...'',
            Post TRANSCRIBE ?p, Notify_update (next_toast w) ''Transcription complete!'' ''success'']"
  have ev: "events ?w4 = events w @ ?pre"
    by (simp add: notify_loading_def notify_update_def notify_success_def emit_def)
  have tid: "fst (notify_loading ''Transcribing audio...'' ?w1) = next_toast w"
    by (simp add: notify_loading_def notify_success_def emit_def)
  have eq: "?r =
          (if ?text \<noteq> NO_TRANSCRIPTION
           then ((fst (translateText ?text reply2 (?s3, ?w4)))\<lparr>isTranscribing := False\<rparr>,
                 snd (translateText ?text reply2 (?s3, ?w4)))
           else (?s3\<lparr>isTranscribing := False\<rparr>, ?w4))"
    using ty sz ok by (simp add: handleFileUpload_def Let_def tid)
  have first: "\<exists>s3 w4 p.
      transcription s3 = ?text \<and> targetLang s3 = targetLang s
      \<and> events w4 = events w @ [Notify_success ''Audio file uploaded successfully!'',
            Notify_loading (next_toast w) ''Transcribing audio...'',
            Post TRANSCRIBE p, Notify_update (next_toast w) ''Transcription complete!'' ''success'']
      \<and> ?r =
          (if ?text \<noteq> NO_TRANSCRIPTION
           then ((fst (translateText ?text reply2 (s3, w4)))\<lparr>isTranscribing := False\<rparr>,
                 snd (translateText ?text reply2 (s3, w4)))
           else (s3\<lparr>isTranscribing := False\<rparr>, w4))"
    apply (rule exI[of _ ?s3], rule exI[of _ ?w4], rule exI[of _ ?p])
    using ev eq by simp
  have second: "list_ex translate_started (added w (snd ?r)) \<longleftrightarrow> ?text \<noteq> NO_TRANSCRIPTION"
  proof (cases "?text = NO_TRANSCRIPTION")
    case True
    then have "added w (snd ?r) = ?pre" by (simp add: eq ev added_def)
    then show ?thesis using True by simp
  next
    case False
    from translateText_events[OF ok, of reply2 ?s3 ?w4]
    obtain e es where e: "translate_started e"
      and es: "events (snd (translateText ?text reply2 (?s3, ?w4))) = events ?w4 @ e # es" by blast
    from False have "added w (snd ?r) = ?pre @ e # es" by (simp add: eq es ev added_def)
    then show ?thesis using False e by simp
  qed
  from first second show ?thesis by blast
qed

text \<open>
  C7.  A transcription succeeds when \<open>handleRecordingComplete\<close> gets a reply with a non-empty
  \<open>transcription\<close>, and when \<open>handleFileUpload\<close> (for an accepted file) gets a reply of
  status 200 with a non-empty \<open>text\<close>.  In both handlers there is then a state \<open>s2\<close> holding
  the transcribed text, reached after the toast "Transcription complete!", such that the
  handler's result is that of \<open>translateText\<close> called in \<open>s2\<close> with the transcribed text
  when the text differs from \<open>'No transcription available'\<close>, and is \<open>s2\<close> itself when the
  text equals it (in both cases with \<open>isTranscribing\<close> reset).  Seen on the trace: the
  handler adds an opening event of \<open>translateText\<close> if and only if the text differs from
  the sentinel.
\<close>

theorem transcription_feeds_translation:
  "(transcription_of d \<noteq> [] \<longrightarrow>
      (\<exists>s2 w3 p.
        transcription s2 = transcription_of d \<and> targetLang s2 = targetLang s
        \<and> events w3 = events w @ [Notify_loading (next_toast w) ''Transcribing audio...'',
              Post TRANSCRIBE p, Notify_update (next_toast w) ''Transcription complete!'' ''success'']
        \<and> handleRecordingComplete (Some b) (Resolved st d) reply2 (s, w) =
            (if transcription_of d \<noteq> NO_TRANSCRIPTION
             then ((fst (translateText (transcription_of d) reply2 (s2, w3)))\<lparr>isTranscribing := False\<rparr>,
                   snd (translateText (transcription_of d) reply2 (s2, w3)))
             else (s2\<lparr>isTranscribing := False\<rparr>, w3)))
      \<and> (list_ex translate_started
            (added w (snd (handleRecordingComplete (Some b) (Resolved st d) reply2 (s, w))))
           \<longleftrightarrow> transcription_of d \<noteq> NO_TRANSCRIPTION))
   \<and> (file_type f \<in> set ALLOWED_AUDIO_TYPES \<and> file_size f \<le> MAX_FILE_SIZE \<and> text_of d' \<noteq> [] \<longrightarrow>
      (\<exists>s3 w4 p.
        transcription s3 = text_of d' \<and> targetLang s3 = targetLang s
        \<and> events w4 = events w @ [Notify_success ''Audio file uploaded successfully!'',
              Notify_loading (next_toast w) ''Transcribing audio...'',
              Post TRANSCRIBE p, Notify_update (next_toast w) ''Transcription complete!'' ''success'']
        \<and> handleFileUpload (Some f) (Resolved 200 d') reply2 (s, w) =
            (if text_of d' \<noteq> NO_TRANSCRIPTION
             then ((fst (translateText (text_of d') reply2 (s3, w4)))\<lparr>isTranscribing := False\<rparr>,
                   snd (translateText (text_of d') reply2 (s3, w4)))
             else (s3\<lparr>isTranscribing := False\<rparr>, w4)))
      \<and> (list_ex translate_started
            (added w (snd (handleFileUpload (Some f) (Resolved 200 d') reply2 (s, w))))
           \<longleftrightarrow> text_of d' \<noteq> NO_TRANSCRIPTION))"
proof (intro conjI impI)
  assume "transcription_of d \<noteq> []"
  from handleRecordingComplete_success [OF this, where s = s and w = w and b = b and st = st and ?reply2.0 = reply2]
  show "\<exists>s2 w3 p.
        transcription s2 = transcription_of d \<and> targetLang s2 = targetLang s
        \<and> events w3 = events w @ [Notify_loading (next_toast w) ''Transcribing audio...'',
              Post TRANSCRIBE p, Notify_update (next_toast w) ''Transcription complete!'' ''success'']
        \<and> handleRecordingComplete (Some b) (Resolved st d) reply2 (s, w) =
            (if transcription_of d \<noteq> NO_TRANSCRIPTION
             then ((fst (translateText (transcription_of d) reply2 (s2, w3)))\<lparr>isTranscribing := False\<rparr>,
                   snd (translateText (transcription_of d) reply2 (s2, w3)))
             else (s2\<lparr>isTranscribing := False\<rparr>, w3))"
    by (rule conjunct1)
next
  assume "transcription_of d \<noteq> []"
  from handleRecordingComplete_success [OF this, where s = s and w = w and b = b and st = st and ?reply2.0 = reply2]
  show "list_ex translate_started
            (added w (snd (handleRecordingComplete (Some b) (Resolved st d) reply2 (s, w))))
           \<longleftrightarrow> transcription_of d \<noteq> NO_TRANSCRIPTION"
    by (rule conjunct2)
next
  assume a: "file_type f \<in> set ALLOWED_AUDIO_TYPES \<and> file_size f \<le> MAX_FILE_SIZE \<and> text_of d' \<noteq> []"
  then have ty: "file_type f \<in> set ALLOWED_AUDIO_TYPES" and sz: "file_size f \<le> MAX_FILE_SIZE"
    and ok: "text_of d' \<noteq> []" by simp_all
  from handleFileUpload_success [OF ty sz ok, where s = s and w = w and ?reply2.0 = reply2]
  show "\<exists>s3 w4 p.
        transcription s3 = text_of d' \<and> targetLang s3 = targetLang s
        \<and> events w4 = events w @ [Notify_success ''Audio file uploaded successfully!'',
              Notify_loading (next_toast w) ''Transcribing audio...'',
              Post TRANSCRIBE p, Notify_update (next_toast w) ''Transcription complete!'' ''success'']
        \<and> handleFileUpload (Some f) (Resolved 200 d') reply2 (s, w) =
            (if text_of d' \<noteq> NO_TRANSCRIPTION
             then ((fst (translateText (text_of d') reply2 (s3, w4)))\<lparr>isTranscribing := False\<rparr>,
                   snd (translateText (text_of d') reply2 (s3, w4)))
             else (s3\<lparr>isTranscribing := False\<rparr>, w4))"
    by (rule conjunct1)
next
  assume a: "file_type f \<in> set ALLOWED_AUDIO_TYPES \<and> file_size f \<le> MAX_FILE_SIZE \<and> text_of d' \<noteq> []"
  then have ty: "file_type f \<in> set ALLOWED_AUDIO_TYPES" and sz: "file_size f \<le> MAX_FILE_SIZE"
    and ok: "text_of d' \<noteq> []" by simp_all
  from handleFileUpload_success [OF ty sz ok, where s = s and w = w and ?reply2.0 = reply2]
  show "list_ex translate_started
            (added w (snd (handleFileUpload (Some f) (Resolved 200 d') reply2 (s, w))))
           \<longleftrightarrow> text_of d' \<noteq> NO_TRANSCRIPTION"
    by (rule conjunct2)
qed

theorem transcription_feeds_translation_witness:
  "list_ex translate_started (added world_init
      (snd (handleRecordingComplete (Some recorded_blob) transcribe_ok translate_ok
              (App_init, world_init))))
   \<and> \<not> list_ex translate_started (added world_init
      (snd (handleRecordingComplete (Some recorded_blob) transcribe_nothing translate_ok
              (App_init, world_init))))
   \<and> file_type short_wav \<in> set ALLOWED_AUDIO_TYPES \<and> file_size short_wav \<le> MAX_FILE_SIZE
   \<and> list_ex translate_started (added world_init
      (snd (handleFileUpload (Some short_wav) transcribe_text_ok translate_ok
              (App_init, world_init))))
   \<and> \<not> list_ex translate_started (added world_init
      (snd (handleFileUpload (Some short_wav) transcribe_nothing translate_ok
              (App_init, world_init))))"
proof -
  let ?hello = "Some \<lparr>d_transcription = Some ''Hello world'', d_text = None, d_error = None\<rparr>"
  let ?hello' = "Some \<lparr>d_transcription = None, d_text = Some ''Hello world'', d_error = None\<rparr>"
  let ?nothing = "Some \<lparr>d_transcription = Some NO_TRANSCRIPTION, d_text = Some NO_TRANSCRIPTION,
                          d_error = None\<rparr>"
  have h1: "transcription_of ?hello \<noteq> []" "transcription_of ?hello \<noteq> NO_TRANSCRIPTION"
    by (simp_all add: transcription_of_def NO_TRANSCRIPTION_def)
  have h2: "transcription_of ?nothing \<noteq> []" "transcription_of ?nothing = NO_TRANSCRIPTION"
    by (simp_all add: transcription_of_def NO_TRANSCRIPTION_def)
  have h3: "text_of ?hello' \<noteq> []" "text_of ?hello' \<noteq> NO_TRANSCRIPTION"
    by (simp_all add: text_of_def NO_TRANSCRIPTION_def)
  have h4: "text_of ?nothing \<noteq> []" "text_of ?nothing = NO_TRANSCRIPTION"
    by (simp_all add: text_of_def NO_TRANSCRIPTION_def)
  have f: "file_type short_wav \<in> set ALLOWED_AUDIO_TYPES" "file_size short_wav \<le> MAX_FILE_SIZE"
    by (simp_all add: short_wav_def ALLOWED_AUDIO_TYPES_def MAX_FILE_SIZE_def)
  have a: "list_ex translate_started (added world_init
      (snd (handleRecordingComplete (Some recorded_blob) transcribe_ok translate_ok
              (App_init, world_init))))"
    using transcription_feeds_translation
      [where d = ?hello and d' = ?hello' and f = short_wav and s = App_init and w = world_init
         and b = recorded_blob and st = 200 and ?reply2.0 = translate_ok] h1
    by (simp add: transcribe_ok_def)
  have b: "\<not> list_ex translate_started (added world_init
      (snd (handleRecordingComplete (Some recorded_blob) transcribe_nothing translate_ok
              (App_init, world_init))))"
    using transcription_feeds_translation
      [where d = ?nothing and d' = ?nothing and f = short_wav and s = App_init and w = world_init
         and b = recorded_blob and st = 200 and ?reply2.0 = translate_ok] h2
    by (simp add: transcribe_nothing_def)
  have c: "list_ex translate_started (added world_init
      (snd (handleFileUpload (Some short_wav) transcribe_text_ok translate_ok
              (App_init, world_init))))"
    using transcription_feeds_translation
      [where d = ?hello and d' = ?hello' and f = short_wav and s = App_init and w = world_init
         and b = recorded_blob and st = 200 and ?reply2.0 = translate_ok] h3 f
    by (simp add: transcribe_text_ok_def)
  have d: "\<not> list_ex translate_started (added world_init
      (snd (handleFileUpload (Some short_wav) transcribe_nothing translate_ok
              (App_init, world_init))))"
    using transcription_feeds_translation
      [where d = ?nothing and d' = ?nothing and f = short_wav and s = App_init and w = world_init
         and b = recorded_blob and st = 200 and ?reply2.0 = translate_ok] h4 f
    by (simp add: transcribe_nothing_def)
  show ?thesis
    by (intro conjI) (rule a b c d f)+
qed

subsection \<open>Recording\<close>

text \<open>
  C5 (as amended).  \<open>stopRecording\<close> called while the component holds no recorder returns at
  once: no error is reported, nothing changes, the callback is not called.  When the
  component holds a recorder and the recorder's \<open>stop()\<close> rejects, whatever the error, the
  component reports "Failed to stop recording. Please try again." and neither creates a URL
  nor calls the callback.  \<open>startRecording\<close> does not look at \<open>isRecording\<close>: when the
  microphone is granted and \<open>start()\<close> of the new recorder resolves, it replaces the stored
  recorder, sets \<open>isRecording\<close> and reports no error, whatever the state before; when
  \<open>start()\<close> rejects with an error that is neither \<open>NotAllowedError\<close> nor \<open>NotFoundError\<close>, it
  reports "Failed to start recording".
\<close>

theorem Recorder_stop_start_unguarded:
  "(recorderRef s = None \<longrightarrow> stopRecording stopped (s, w) = (s, w, None))
   \<and> (recorderRef s \<noteq> None \<longrightarrow>
        rec_error (fst (stopRecording (Inl name) (s, w)))
          = Some ''Failed to stop recording. Please try again.''
        \<and> snd (stopRecording (Inl name) (s, w)) = (w, None))
   \<and> startRecording (Inr stream) (Inr ()) s =
        s\<lparr>rec_isLoading := False, rec_error := None, recorderRef := Some stream,
          rec_isRecording := True, rec_audioUrl := None\<rparr>
   \<and> (name \<noteq> ''NotAllowedError'' \<and> name \<noteq> ''NotFoundError'' \<longrightarrow>
        rec_error (startRecording (Inr stream) (Inl name) s) = Some ''Failed to start recording'')"
  by (auto simp: stopRecording_def startRecording_def startRecording_catch_def handleError_def)

theorem Recorder_stop_start_unguarded_witness:
  "recorderRef Recorder_init = None
   \<and> stopRecording (Inl ''InvalidState'') (Recorder_init, world_init)
       = (Recorder_init, world_init, None)
   \<and> recorderRef (startRecording (Inr 1) (Inr ()) Recorder_init) \<noteq> None
   \<and> rec_error (fst (stopRecording (Inl ''InvalidState'')
         (startRecording (Inr 1) (Inr ()) Recorder_init, world_init)))
       = Some ''Failed to stop recording. Please try again.''
   \<and> ''InvalidState'' \<noteq> ''NotAllowedError'' \<and> ''InvalidState'' \<noteq> ''NotFoundError''
   \<and> rec_error (startRecording (Inr 1) (Inl ''InvalidState'') Recorder_init)
       = Some ''Failed to start recording''"
proof -
  let ?s = "startRecording (Inr 1) (Inr ()) Recorder_init"
  have h1: "recorderRef Recorder_init = None" by (simp add: Recorder_init_def)
  have h2: "recorderRef ?s \<noteq> None"
    using Recorder_stop_start_unguarded
      [of Recorder_init "Inl ''InvalidState''" world_init "''InvalidState''" 1] by simp
  have h3: "''InvalidState'' \<noteq> ''NotAllowedError'' \<and> ''InvalidState'' \<noteq> ''NotFoundError''"
    by simp
  have a: "stopRecording (Inl ''InvalidState'') (Recorder_init, world_init)
             = (Recorder_init, world_init, None)"
    using Recorder_stop_start_unguarded
      [of Recorder_init "Inl ''InvalidState''" world_init "''InvalidState''" 1] h1 by simp
  have b: "rec_error (fst (stopRecording (Inl ''InvalidState'') (?s, world_init)))
             = Some ''Failed to stop recording. Please try again.''"
    using Recorder_stop_start_unguarded
      [of ?s "Inl ''InvalidState''" world_init "''InvalidState''" 1] h2 by simp
  have c: "rec_error (startRecording (Inr 1) (Inl ''InvalidState'') Recorder_init)
             = Some ''Failed to start recording''"
    using Recorder_stop_start_unguarded
      [of Recorder_init "Inl ''InvalidState''" world_init "''InvalidState''" 1] h3 by simp
  from h3 show ?thesis
    by (intro conjI) (rule h1 a h2 b c | simp)+
qed

text \<open>
  The claim C5 as it was stated fails.  Stopping before any recording was started reports
  no error at all and leaves the component as it was; starting a second time while the
  first recording is in progress (both recorders starting normally) reports no error
  either and leaves the component recording, on the second recorder.
\<close>

theorem Recorder_no_InvalidState_counterexample:
  "\<not> rec_isRecording Recorder_init
   \<and> stopRecording (Inl ''InvalidState'') (Recorder_init, world_init)
       = (Recorder_init, world_init, None)
   \<and> rec_error Recorder_init = None
   \<and> rec_isRecording (startRecording (Inr 1) (Inr ()) Recorder_init)
   \<and> rec_error (startRecording (Inr 2) (Inr ())
         (startRecording (Inr 1) (Inr ()) Recorder_init)) = None
   \<and> rec_isRecording (startRecording (Inr 2) (Inr ())
         (startRecording (Inr 1) (Inr ()) Recorder_init))
   \<and> recorderRef (startRecording (Inr 2) (Inr ())
         (startRecording (Inr 1) (Inr ()) Recorder_init)) = Some 2"
  by (simp add: stopRecording_def startRecording_def Recorder_init_def)

subsection \<open>Playback\<close>




end
